theory Spec2Isabelle
  imports Main
begin

section \<open>JavaScript values\<close>

text \<open>
  The utilities of \<^verbatim>\<open>Utils.ts\<close> take arguments of type \<^verbatim>\<open>any\<close>, so they are
  modelled over the values a JavaScript expression can denote. A number is an IEEE double
  in sign/magnitude form: only whether it is NaN or a zero matters to the code below.
  An object is the list of its own enumerable properties in \<^verbatim>\<open>Object.entries\<close>
  order.
\<close>

datatype jsnum = NaN | Infinity bool | Finite bool nat int

datatype jsval =
    JUndefined
  | JNull
  | JBool bool
  | JNum jsnum
  | JBigInt int
  | JStr string
  | JSymbol nat
  | JFunction nat
  | JArr "jsval list"
  | JObj "(string \<times> jsval) list"

text \<open>The \<^verbatim>\<open>typeof\<close> operator.\<close>

fun typeof :: "jsval \<Rightarrow> string" where
  "typeof JUndefined = ''undefined''"
| "typeof JNull = ''object''"
| "typeof (JBool b) = ''boolean''"
| "typeof (JNum n) = ''number''"
| "typeof (JBigInt i) = ''bigint''"
| "typeof (JStr s) = ''string''"
| "typeof (JSymbol k) = ''symbol''"
| "typeof (JFunction k) = ''function''"
| "typeof (JArr xs) = ''object''"
| "typeof (JObj kvs) = ''object''"

text \<open>\<^verbatim>\<open>Array.isArray\<close>.\<close>

fun isArray :: "jsval \<Rightarrow> bool" where
  "isArray (JArr xs) = True"
| "isArray v = False"

text \<open>The conversion to boolean that \<^verbatim>\<open>&&\<close>, \<^verbatim>\<open>||\<close> and \<^verbatim>\<open>if\<close> apply.\<close>

fun zero_num :: "jsnum \<Rightarrow> bool" where
  "zero_num NaN = True"
| "zero_num (Infinity s) = False"
| "zero_num (Finite s m e) = (m = 0)"

fun truthy :: "jsval \<Rightarrow> bool" where
  "truthy JUndefined = False"
| "truthy JNull = False"
| "truthy (JBool b) = b"
| "truthy (JNum n) = (if zero_num n then False else True)"
| "truthy (JBigInt i) = (if i = 0 then False else True)"
| "truthy (JStr s) = (if s = [] then False else True)"
| "truthy (JSymbol k) = True"
| "truthy (JFunction k) = True"
| "truthy (JArr xs) = True"
| "truthy (JObj kvs) = True"

text \<open>\<^verbatim>\<open>a || b\<close>: the left operand when it is truthy, else the right one.\<close>

definition jsOr :: "jsval \<Rightarrow> jsval \<Rightarrow> jsval" where
  "jsOr a b = (if truthy a then a else b)"

text \<open>
  Reading a named property. A missing property reads as \<^verbatim>\<open>undefined\<close>. The keys read
  below are neither array indices nor \<^verbatim>\<open>length\<close>, so an array has none of them.
\<close>

fun getProp :: "jsval \<Rightarrow> string \<Rightarrow> jsval" where
  "getProp (JObj kvs) k = (case map_of kvs k of None \<Rightarrow> JUndefined | Some v \<Rightarrow> v)"
| "getProp v k = JUndefined"

section \<open>Utils.ts\<close>

text \<open>
  \<^verbatim>\<open>inferTypeFromValue(value)\<close>: arrays first, then \<^verbatim>\<open>null\<close>, then \<^verbatim>\<open>typeof\<close> with
  \<^verbatim>\<open>bigint\<close> renamed.
\<close>

definition inferTypeFromValue :: "jsval \<Rightarrow> string" where
  "inferTypeFromValue v =
     (if isArray v then ''array''
      else if v = JNull then ''null''
      else (let typeOfEnum = typeof v in
            if typeOfEnum = ''bigint'' then ''integer'' else typeOfEnum))"

text \<open>
  \<^verbatim>\<open>interpretName(schema)\<close>: for a truthy value of type object,
  \<^verbatim>\<open>schema.title || schema.$id || schema['x-modelgen-inferred-name']\<close>; otherwise the
  function falls off its end and yields \<^verbatim>\<open>undefined\<close>.
\<close>

definition interpretName :: "jsval \<Rightarrow> jsval" where
  "interpretName schema =
     (if truthy schema \<and> typeof schema = ''object''
      then jsOr (jsOr (getProp schema ''title'') (getProp schema ''$id''))
                (getProp schema ''x-modelgen-inferred-name'')
      else JUndefined)"

section \<open>Schema and CommonModel\<close>

text \<open>
  \<^verbatim>\<open>CommonSchema<T>\<close> declares \<^verbatim>\<open>type?: string | string[]\<close> and
  \<^verbatim>\<open>items?: T | T[]\<close>.
\<close>

datatype jtype = TStr string | TArr "string list"

datatype 'a oneOrMany = One 'a | Many "'a list"

text \<open>
  \<^verbatim>\<open>Schema | boolean\<close>, with the fields \<^verbatim>\<open>CommonSchema<Schema | boolean>\<close> declares. An
  optional field is an option; an object-valued field is the list of its entries.
\<close>

datatype schema =
    SBool bool
  | SObj (s_id: "string option")
         (s_type: "jtype option")
         (s_enum: "jsval list option")
         (s_items: "schema oneOrMany option")
         (s_properties: "(string \<times> schema) list option")
         (s_additionalProperties: "schema option")
         (s_patternProperties: "(string \<times> schema) list option")
         (s_ref: "string option")
         (s_required: "string list option")

text \<open>
  Modelled from the spec: the class \<^verbatim>\<open>CommonModel\<close> is not among the sources. Its
  fields are those \<^verbatim>\<open>CommonSchema<CommonModel>\<close> declares, which is among them,
  followed by the two the data model of the specification adds: \<^verbatim>\<open>extend\<close> (the ids
  the model inherits from) and \<^verbatim>\<open>originalSchema\<close>.
\<close>

datatype commonModel =
  CommonModel (m_id: "string option")
              (m_type: "jtype option")
              (m_enum: "jsval list option")
              (m_items: "commonModel oneOrMany option")
              (m_properties: "(string \<times> commonModel) list option")
              (m_additionalProperties: "commonModel option")
              (m_patternProperties: "(string \<times> commonModel) list option")
              (m_ref: "string option")
              (m_required: "string list option")
              (m_extend: "string list option")
              (m_originalSchema: "schema option")

text \<open>\<^verbatim>\<open>String.prototype.includes\<close>: the argument occurs as a contiguous substring.\<close>

fun includes_str :: "string \<Rightarrow> string \<Rightarrow> bool" where
  "includes_str [] sub = (sub = [])"
| "includes_str (c # cs) sub = (if take (length sub) (c # cs) = sub then True else includes_str cs sub)"

text \<open>
  \<^verbatim>\<open>type.includes(tag)\<close> on \<^verbatim>\<open>string | string[]\<close>: substring search on a string,
  membership on an array.
\<close>

fun typeIncludes :: "jtype \<Rightarrow> string \<Rightarrow> bool" where
  "typeIncludes (TStr s) tag = includes_str s tag"
| "typeIncludes (TArr ts) tag = List.member ts tag"

fun isArrayType :: "jtype \<Rightarrow> bool" where
  "isArrayType (TArr ts) = True"
| "isArrayType (TStr s) = False"

fun typeLength :: "jtype \<Rightarrow> nat" where
  "typeLength (TArr ts) = length ts"
| "typeLength (TStr s) = length s"

text \<open>\<^verbatim>\<open>isModelObject(model)\<close>.\<close>

definition isModelObject :: "commonModel \<Rightarrow> bool" where
  "isModelObject model =
     (case m_type model of
        None \<Rightarrow> False
      | Some t \<Rightarrow>
          if isArrayType t \<and> typeLength t = 7 then False
          else typeIncludes t ''object'')"

text \<open>The seven JSON types.\<close>

definition jsonTypes :: "string list" where
  "jsonTypes = [''null'', ''boolean'', ''integer'', ''number'', ''string'', ''array'', ''object'']"

section \<open>Keyword handlers of the interpreter\<close>

text \<open>
  \<^verbatim>\<open>interpretPatternProperties(schema, model, interpreter)\<close>
  (\<^verbatim>\<open>InterpretPatternProperties.ts\<close>). The classes \<^verbatim>\<open>Interpreter\<close> and
  \<^verbatim>\<open>CommonModel\<close> are not among the sources, so their two methods the handler calls
  are parameters: \<^verbatim>\<open>interpreter.interpret(schema)\<close> takes the interpreter's state and
  returns the models with the new state, and
  \<^verbatim>\<open>model.addPatternProperty(pattern, patternModel, schema)\<close> takes the model last and
  returns the updated model. The loop runs over the entries of
  \<^verbatim>\<open>schema.patternProperties || {}\<close> in order.
\<close>

fun patternPropertiesLoop ::
  "(string \<Rightarrow> commonModel \<Rightarrow> schema \<Rightarrow> commonModel \<Rightarrow> commonModel) \<Rightarrow>
   ('i \<Rightarrow> schema \<Rightarrow> commonModel list \<times> 'i) \<Rightarrow> schema \<Rightarrow>
   (string \<times> schema) list \<Rightarrow> commonModel \<Rightarrow> 'i \<Rightarrow> commonModel \<times> 'i" where
  "patternPropertiesLoop addPatternProperty interpret schema [] model interpreter =
     (model, interpreter)"
| "patternPropertiesLoop addPatternProperty interpret schema ((pattern, patternSchema) # rest)
     model interpreter =
     (case interpret interpreter patternSchema of
        (newModels, interpreter') \<Rightarrow>
          patternPropertiesLoop addPatternProperty interpret schema rest
            (if length newModels > 0
             then addPatternProperty pattern (newModels ! 0) schema model
             else model)
            interpreter')"

fun interpretPatternProperties ::
  "(string \<Rightarrow> commonModel \<Rightarrow> schema \<Rightarrow> commonModel \<Rightarrow> commonModel) \<Rightarrow>
   ('i \<Rightarrow> schema \<Rightarrow> commonModel list \<times> 'i) \<Rightarrow>
   schema \<Rightarrow> commonModel \<Rightarrow> 'i \<Rightarrow> commonModel \<times> 'i" where
  "interpretPatternProperties addPatternProperty interpret (SBool b) model interpreter =
     (model, interpreter)"
| "interpretPatternProperties addPatternProperty interpret schema model interpreter =
     patternPropertiesLoop addPatternProperty interpret schema
       (case s_patternProperties schema of None \<Rightarrow> [] | Some entries \<Rightarrow> entries)
       model interpreter"

text \<open>
  The interpreter's answers to the entries of a \<^verbatim>\<open>patternProperties\<close> object, asked in
  order, each call starting from the state the previous one left, and the state after the
  last call.
\<close>

fun interpretations ::
  "('i \<Rightarrow> schema \<Rightarrow> commonModel list \<times> 'i) \<Rightarrow> 'i \<Rightarrow> (string \<times> schema) list \<Rightarrow>
   (string \<times> commonModel list) list \<times> 'i" where
  "interpretations interpret interpreter [] = ([], interpreter)"
| "interpretations interpret interpreter ((pattern, patternSchema) # rest) =
     (case interpret interpreter patternSchema of
        (newModels, interpreter') \<Rightarrow>
          (case interpretations interpret interpreter' rest of
             (results, interpreter'') \<Rightarrow> ((pattern, newModels) # results, interpreter'')))"

text \<open>Of these answers, the non-empty ones, each reduced to its first model.\<close>

definition registered ::
  "(string \<times> commonModel list) list \<Rightarrow> (string \<times> commonModel) list" where
  "registered results =
     map (\<lambda>(pattern, newModels). (pattern, hd newModels))
       (filter (\<lambda>(pattern, newModels). newModels \<noteq> []) results)"

text \<open>
  Modelled from the spec: \<^verbatim>\<open>InterpretAdditionalProperties.ts\<close> is not among the sources;
  only its tests are. The handler is modelled from the interpreter's description
  (\<^verbatim>\<open>additionalProperties\<close>: if absent, defaulted to \<^verbatim>\<open>true\<close>; interpreted; set on
  the parent) and from the four tests: a boolean schema is left alone as in the sibling
  handler, the handler only works if the model is of object type (the classifier
  \<^verbatim>\<open>isModelObject\<close> of \<^verbatim>\<open>Utils.ts\<close>), the interpreter is called once, on the
  subschema or on \<^verbatim>\<open>true\<close>, and its first model, if any, is passed to
  \<^verbatim>\<open>model.addAdditionalProperty(additionalPropertyModel, schema)\<close>.
\<close>

fun interpretAdditionalProperties ::
  "(commonModel \<Rightarrow> schema \<Rightarrow> commonModel \<Rightarrow> commonModel) \<Rightarrow>
   ('i \<Rightarrow> schema \<Rightarrow> commonModel list \<times> 'i) \<Rightarrow>
   schema \<Rightarrow> commonModel \<Rightarrow> 'i \<Rightarrow> commonModel \<times> 'i" where
  "interpretAdditionalProperties addAdditionalProperty interpret (SBool b) model interpreter =
     (model, interpreter)"
| "interpretAdditionalProperties addAdditionalProperty interpret schema model interpreter =
     (if isModelObject model = False then (model, interpreter)
      else
        (case interpret interpreter
                (case s_additionalProperties schema of None \<Rightarrow> SBool True | Some s \<Rightarrow> s) of
           (newModels, interpreter') \<Rightarrow>
             (if length newModels > 0
              then addAdditionalProperty (newModels ! 0) schema model
              else model,
              interpreter')))"

text \<open>The schema \<^verbatim>\<open>{}\<close> and a model of type \<^verbatim>\<open>"string"\<close>, as the tests build them.\<close>

definition emptySchema :: schema where
  "emptySchema = SObj None None None None None None None None None"

definition stringModel :: commonModel where
  "stringModel =
     CommonModel None (Some (TStr ''string'')) None None None None None None None None None"

section \<open>The input processor\<close>

text \<open>
  Modelled from the spec: \<^verbatim>\<open>JsonSchemaInputProcessor.ts\<close> is not among the sources;
  only its tests are. Its operations take the raw input, a value of type \<^verbatim>\<open>any\<close>, so
  they are modelled over \<^typ>\<open>jsval\<close>. The error kinds are those of the specification's
  error table; the tests show the first two as rejections with the messages
  \<^verbatim>\<open>Input is not a JSON Schema, so it cannot be processed.\<close> and
  \<^verbatim>\<open>Could not dereference $ref in input, is all the references correct?\<close>.
\<close>

datatype error = UnsupportedSchemaDraft | UnresolvedReference | InvalidInput

subsection \<open>shouldProcess\<close>

text \<open>
  Modelled from the spec: \<^verbatim>\<open>shouldProcess(input)\<close> is true iff the input is an object
  with no \<^verbatim>\<open>$schema\<close> or with \<^verbatim>\<open>$schema\<close> naming a supported draft, currently
  draft-07. The draft is named by the URI the tests use.
\<close>

definition supportedDrafts :: "string list" where
  "supportedDrafts = [''http://json-schema.org/draft-07/schema#'']"

fun shouldProcess :: "jsval \<Rightarrow> bool" where
  "shouldProcess (JObj kvs) =
     (case getProp (JObj kvs) ''$schema'' of
        JUndefined \<Rightarrow> True
      | JStr s \<Rightarrow> List.member supportedDrafts s
      | _ \<Rightarrow> False)"
| "shouldProcess v = False"

subsection \<open>The name reflector\<close>

text \<open>The decimal numeral of an index, as string interpolation prints it.\<close>

function showNat :: "nat \<Rightarrow> string" where
  "showNat n =
     (if n < 10 then [''0123456789'' ! n]
      else showNat (n div 10) @ [''0123456789'' ! (n mod 10)])"
  by pat_completeness auto
termination
  by (relation "measure id") auto

definition inferredNameKey :: string where
  "inferredNameKey = ''x-modelgen-inferred-name''"

text \<open>
  Modelled from the spec: the parent's inferred name and the position key, joined by
  \<^verbatim>\<open>_\<close>.
\<close>

fun joinName :: "string option \<Rightarrow> string \<Rightarrow> string" where
  "joinName None key = key"
| "joinName (Some parent) key = parent @ ''_'' @ key"

text \<open>
  Modelled from the spec: the inferred name of a schema object is the one it already
  carries, else the name it is given, verbatim at the root and prefixed by the parent's
  name elsewhere.
\<close>

definition ownName ::
  "(string \<times> jsval) list \<Rightarrow> string option \<Rightarrow> string \<Rightarrow> bool \<Rightarrow> string" where
  "ownName kvs parentName name isRoot =
     (case map_of kvs inferredNameKey of
        Some (JStr s) \<Rightarrow> s
      | _ \<Rightarrow> if isRoot then name else joinName parentName name)"

lemma size_field_le:
  "(k, v) \<in> set kvs \<Longrightarrow> size v < size_list (size_prod (\<lambda>x. 0) size) kvs"
proof -
  assume a: "(k, v) \<in> set kvs"
  have "Suc (size v) \<le> size_prod (\<lambda>x. 0) size (k, v)" by simp
  with a have "Suc (size v) \<le> size_list (size_prod (\<lambda>x. 0) size) kvs"
    by (rule size_list_estimation')
  then show ?thesis by simp
qed

lemma size_item_le: "v \<in> set xs \<Longrightarrow> size v \<le> size_list size xs"
proof -
  assume "v \<in> set xs"
  moreover have "size v \<le> size v" by simp
  ultimately show ?thesis by (rule size_list_estimation')
qed

lemma size_field_obj:
  "(k, JObj es) \<in> set kvs \<Longrightarrow>
     size_list (size_prod (\<lambda>x. 0) size) es < size_list (size_prod (\<lambda>x. 0) size) kvs"
  using size_field_le [of k "JObj es" kvs] by simp

lemma size_nested_field:
  "(k, JObj es) \<in> set kvs \<Longrightarrow> (key, sub) \<in> set es \<Longrightarrow>
     size sub < Suc (size_list (size_prod (\<lambda>x. 0) size) kvs)"
  using size_field_le [of k "JObj es" kvs] size_field_le [of key sub es] by simp

lemma size_nested_item:
  "(k, JArr xs) \<in> set kvs \<Longrightarrow> (i, sub) \<in> set (enumerate n xs) \<Longrightarrow>
     size sub < Suc (size_list (size_prod (\<lambda>x. 0) size) kvs)"
  using size_field_le [of k "JArr xs" kvs] size_item_le [of sub xs]
  by (auto simp add: in_set_enumerate_eq)

lemma size_nested_pattern:
  "(k, JObj es) \<in> set kvs \<Longrightarrow> (i, (pattern, sub)) \<in> set (enumerate n es) \<Longrightarrow>
     size sub < Suc (size_list (size_prod (\<lambda>x. 0) size) kvs)"
proof -
  assume a: "(k, JObj es) \<in> set kvs" and b: "(i, (pattern, sub)) \<in> set (enumerate n es)"
  from b have "es ! (i - n) = (pattern, sub)" "i - n < length es"
    by (auto simp add: in_set_enumerate_eq)
  then have "(pattern, sub) \<in> set es" by (metis nth_mem)
  with a show ?thesis by (rule size_nested_field)
qed

text \<open>
  Modelled from the spec: \<^verbatim>\<open>reflectSchemaNames(schema, parentName, name, isRoot)\<close> is
  not among the sources; its test is. The reflector walks the schema tree; a schema object
  gets \<^verbatim>\<open>x-modelgen-inferred-name\<close> if it has none, and the subschemas at the positions
  of the specification's table are reflected under the position key: \<^verbatim>\<open>properties[k]\<close>
  and \<^verbatim>\<open>dependencies[k]\<close> under \<^verbatim>\<open>k\<close>, \<^verbatim>\<open>allOf[i]\<close>, \<^verbatim>\<open>anyOf[i]\<close> and
  \<^verbatim>\<open>oneOf[i]\<close> under the keyword and the index, \<^verbatim>\<open>items\<close> under \<^verbatim>\<open>items\<close> or,
  in an array, \<^verbatim>\<open>items_<i>\<close>, \<^verbatim>\<open>additionalProperties\<close> under
  \<^verbatim>\<open>additionalProperty\<close>, \<^verbatim>\<open>patternProperties[p]\<close> under
  \<^verbatim>\<open>pattern_property_<index>\<close>, \<^verbatim>\<open>not\<close> under \<^verbatim>\<open>not\<close>, and
  \<^verbatim>\<open>definitions[k]\<close> under \<^verbatim>\<open>k\<close> alone, without the parent's name. Boolean schemas
  (and every other value that is not an object) are skipped. The flag \<^verbatim>\<open>isRoot\<close> takes
  the name verbatim; the expectations of the test (\<^verbatim>\<open>prop\<close>, \<^verbatim>\<open>anyOf_0\<close>,
  \<^verbatim>\<open>allOfCase_allOf_0\<close> under the root named \<^verbatim>\<open>root\<close>) fix that the subschemas of
  the root do not carry the root's name. The new attribute is added after the object's
  other keys.
\<close>

function reflectSchemaNames :: "jsval \<Rightarrow> string option \<Rightarrow> string \<Rightarrow> bool \<Rightarrow> jsval" where
  "reflectSchemaNames (JObj kvs) parentName name isRoot =
     (let own = ownName kvs parentName name isRoot;
          prefix = (if isRoot then None else Some own);
          kvs' = map (\<lambda>(k, v). (k,
            if k = ''properties'' \<or> k = ''dependencies'' then
              (case v of
                 JObj entries \<Rightarrow>
                   JObj (map (\<lambda>(key, sub). (key, reflectSchemaNames sub prefix key False))
                          entries)
               | _ \<Rightarrow> v)
            else if k = ''definitions'' then
              (case v of
                 JObj entries \<Rightarrow>
                   JObj (map (\<lambda>(key, sub). (key, reflectSchemaNames sub None key False))
                          entries)
               | _ \<Rightarrow> v)
            else if k = ''allOf'' \<or> k = ''anyOf'' \<or> k = ''oneOf'' then
              (case v of
                 JArr subs \<Rightarrow>
                   JArr (map (\<lambda>(i, sub).
                               reflectSchemaNames sub prefix (k @ ''_'' @ showNat i) False)
                          (enumerate 0 subs))
               | _ \<Rightarrow> v)
            else if k = ''items'' then
              (case v of
                 JArr subs \<Rightarrow>
                   JArr (map (\<lambda>(i, sub).
                               reflectSchemaNames sub prefix (''items_'' @ showNat i) False)
                          (enumerate 0 subs))
               | _ \<Rightarrow> reflectSchemaNames v prefix ''items'' False)
            else if k = ''additionalProperties'' then
              reflectSchemaNames v prefix ''additionalProperty'' False
            else if k = ''not'' then
              reflectSchemaNames v prefix ''not'' False
            else if k = ''patternProperties'' then
              (case v of
                 JObj entries \<Rightarrow>
                   JObj (map (\<lambda>(i, (pattern, sub)).
                               (pattern, reflectSchemaNames sub prefix
                                           (''pattern_property_'' @ showNat i) False))
                          (enumerate 0 entries))
               | _ \<Rightarrow> v)
            else v)) kvs
      in JObj (if map_of kvs inferredNameKey = None
               then kvs' @ [(inferredNameKey, JStr own)] else kvs'))"
| "reflectSchemaNames (JArr xs) parentName name isRoot = JArr xs"
| "reflectSchemaNames JUndefined parentName name isRoot = JUndefined"
| "reflectSchemaNames JNull parentName name isRoot = JNull"
| "reflectSchemaNames (JBool b) parentName name isRoot = JBool b"
| "reflectSchemaNames (JNum n) parentName name isRoot = JNum n"
| "reflectSchemaNames (JBigInt i) parentName name isRoot = JBigInt i"
| "reflectSchemaNames (JStr s) parentName name isRoot = JStr s"
| "reflectSchemaNames (JSymbol k) parentName name isRoot = JSymbol k"
| "reflectSchemaNames (JFunction k) parentName name isRoot = JFunction k"
  by pat_completeness auto
termination
proof (relation "measure (\<lambda>(v, p, n, r). size v)")
qed (simp_all,
     (clarify,
      (erule (1) size_nested_field size_nested_item size_nested_pattern
       | erule size_field_obj | erule size_field_le [THEN less_SucI]))+)

subsection \<open>Positions of subschemas\<close>

text \<open>
  Modelled from the spec: the positions of the specification's table at which a schema
  object holds a subschema,
  the key each position contributes to an inferred name, and the subschema a schema holds
  at a position, if any. \<^verbatim>\<open>patternProperties\<close> are counted by their index in the
  object, not by their pattern.
\<close>

datatype position =
    Property string
  | AllOf nat
  | AnyOf nat
  | OneOf nat
  | Items
  | ItemsAt nat
  | AdditionalProperties
  | PatternProperty nat
  | Dependency string
  | Definition string
  | Not

fun positionKey :: "position \<Rightarrow> string" where
  "positionKey (Property k) = k"
| "positionKey (AllOf i) = ''allOf_'' @ showNat i"
| "positionKey (AnyOf i) = ''anyOf_'' @ showNat i"
| "positionKey (OneOf i) = ''oneOf_'' @ showNat i"
| "positionKey Items = ''items''"
| "positionKey (ItemsAt i) = ''items_'' @ showNat i"
| "positionKey AdditionalProperties = ''additionalProperty''"
| "positionKey (PatternProperty i) = ''pattern_property_'' @ showNat i"
| "positionKey (Dependency k) = k"
| "positionKey (Definition k) = k"
| "positionKey Not = ''not''"

fun isDefinition :: "position \<Rightarrow> bool" where
  "isDefinition (Definition k) = True"
| "isDefinition pos = False"

fun memberOf :: "jsval \<Rightarrow> string \<Rightarrow> jsval option" where
  "memberOf (JObj kvs) k = map_of kvs k"
| "memberOf v k = None"

fun elementOf :: "jsval \<Rightarrow> nat \<Rightarrow> jsval option" where
  "elementOf (JArr xs) i = (if i < length xs then Some (xs ! i) else None)"
| "elementOf v i = None"

fun entryAt :: "jsval \<Rightarrow> nat \<Rightarrow> jsval option" where
  "entryAt (JObj kvs) i = (if i < length kvs then Some (snd (kvs ! i)) else None)"
| "entryAt v i = None"

fun subschemaAt :: "jsval \<Rightarrow> position \<Rightarrow> jsval option" where
  "subschemaAt s (Property k) =
     (case memberOf s ''properties'' of None \<Rightarrow> None | Some c \<Rightarrow> memberOf c k)"
| "subschemaAt s (Dependency k) =
     (case memberOf s ''dependencies'' of None \<Rightarrow> None | Some c \<Rightarrow> memberOf c k)"
| "subschemaAt s (Definition k) =
     (case memberOf s ''definitions'' of None \<Rightarrow> None | Some c \<Rightarrow> memberOf c k)"
| "subschemaAt s (AllOf i) =
     (case memberOf s ''allOf'' of None \<Rightarrow> None | Some c \<Rightarrow> elementOf c i)"
| "subschemaAt s (AnyOf i) =
     (case memberOf s ''anyOf'' of None \<Rightarrow> None | Some c \<Rightarrow> elementOf c i)"
| "subschemaAt s (OneOf i) =
     (case memberOf s ''oneOf'' of None \<Rightarrow> None | Some c \<Rightarrow> elementOf c i)"
| "subschemaAt s Items =
     (case memberOf s ''items'' of None \<Rightarrow> None | Some c \<Rightarrow> if isArray c then None else Some c)"
| "subschemaAt s (ItemsAt i) =
     (case memberOf s ''items'' of None \<Rightarrow> None | Some c \<Rightarrow> elementOf c i)"
| "subschemaAt s AdditionalProperties = memberOf s ''additionalProperties''"
| "subschemaAt s Not = memberOf s ''not''"
| "subschemaAt s (PatternProperty i) =
     (case memberOf s ''patternProperties'' of None \<Rightarrow> None | Some c \<Rightarrow> entryAt c i)"

text \<open>The inferred name a schema carries, and the one carried at the end of a path.\<close>

definition inferredName :: "jsval \<Rightarrow> string option" where
  "inferredName v = (case getProp v inferredNameKey of JStr s \<Rightarrow> Some s | _ \<Rightarrow> None)"

fun nameAt :: "jsval \<Rightarrow> position list \<Rightarrow> string option" where
  "nameAt v [] = inferredName v"
| "nameAt v (pos # rest) = (case subschemaAt v pos of None \<Rightarrow> None | Some c \<Rightarrow> nameAt c rest)"


text \<open>
  Where a position takes its prefix from: a definition is named by its key alone.
\<close>

fun positionPrefix :: "position \<Rightarrow> string option \<Rightarrow> string option" where
  "positionPrefix (Definition k) prefix = None"
| "positionPrefix pos prefix = prefix"


text \<open>
  What \<^verbatim>\<open>reflectSchemaNames\<close> does to one member of a schema object, given the prefix
  for the names of its subschemas: the body of the loop over the members, named so that
  it can be reasoned about one keyword at a time.
\<close>

definition reflectMember :: "string option \<Rightarrow> string \<Rightarrow> jsval \<Rightarrow> jsval" where
  "reflectMember prefix k v =
     (if k = ''properties'' \<or> k = ''dependencies'' then
        (case v of
           JObj entries \<Rightarrow>
             JObj (map (\<lambda>(key, sub). (key, reflectSchemaNames sub prefix key False)) entries)
         | _ \<Rightarrow> v)
      else if k = ''definitions'' then
        (case v of
           JObj entries \<Rightarrow>
             JObj (map (\<lambda>(key, sub). (key, reflectSchemaNames sub None key False)) entries)
         | _ \<Rightarrow> v)
      else if k = ''allOf'' \<or> k = ''anyOf'' \<or> k = ''oneOf'' then
        (case v of
           JArr subs \<Rightarrow>
             JArr (map (\<lambda>(i, sub). reflectSchemaNames sub prefix (k @ ''_'' @ showNat i) False)
                    (enumerate 0 subs))
         | _ \<Rightarrow> v)
      else if k = ''items'' then
        (case v of
           JArr subs \<Rightarrow>
             JArr (map (\<lambda>(i, sub). reflectSchemaNames sub prefix (''items_'' @ showNat i) False)
                    (enumerate 0 subs))
         | _ \<Rightarrow> reflectSchemaNames v prefix ''items'' False)
      else if k = ''additionalProperties'' then
        reflectSchemaNames v prefix ''additionalProperty'' False
      else if k = ''not'' then
        reflectSchemaNames v prefix ''not'' False
      else if k = ''patternProperties'' then
        (case v of
           JObj entries \<Rightarrow>
             JObj (map (\<lambda>(i, (pattern, sub)).
                         (pattern, reflectSchemaNames sub prefix
                                     (''pattern_property_'' @ showNat i) False))
                    (enumerate 0 entries))
         | _ \<Rightarrow> v)
      else v)"


subsection \<open>The reference resolver\<close>

text \<open>
  Modelled from the spec: the resolver is not among the sources. A \<^verbatim>\<open>$ref\<close> is read as
  a JSON Pointer relative to the root document, in its fragment form: \<^verbatim>\<open>#\<close> followed by
  \<^verbatim>\<open>/token\<close> segments, where \<^verbatim>\<open>~1\<close> stands for \<^verbatim>\<open>/\<close> and \<^verbatim>\<open>~0\<close> for
  \<^verbatim>\<open>~\<close>. A token selects the member of that name in an object and, as a decimal
  numeral without leading zeros, the element at that index in an array. Anything else (an
  external reference, a pointer that leads nowhere) does not resolve.
\<close>

definition digitValue :: "char \<Rightarrow> nat option" where
  "digitValue c = map_of (zip ''0123456789'' [0, 1, 2, 3, 4, 5, 6, 7, 8, 9]) c"

definition parseIndex :: "string \<Rightarrow> nat option" where
  "parseIndex s =
     (if s = [] then None
      else if hd s = CHR ''0'' \<and> tl s \<noteq> [] then None
      else foldl (\<lambda>acc c. case acc of
                             None \<Rightarrow> None
                           | Some a \<Rightarrow> (case digitValue c of
                                         None \<Rightarrow> None
                                       | Some d \<Rightarrow> Some (10 * a + d)))
             (Some 0) s)"

fun splitOn :: "char \<Rightarrow> string \<Rightarrow> string list" where
  "splitOn c [] = [[]]"
| "splitOn c (x # xs) =
     (if x = c then [] # splitOn c xs
      else (case splitOn c xs of [] \<Rightarrow> [[x]] | t # ts \<Rightarrow> (x # t) # ts))"

fun unescapeToken :: "string \<Rightarrow> string" where
  "unescapeToken (a # b # rest) =
     (if a = CHR ''~'' \<and> b = CHR ''0'' then CHR ''~'' # unescapeToken rest
      else if a = CHR ''~'' \<and> b = CHR ''1'' then CHR ''/'' # unescapeToken rest
      else a # unescapeToken (b # rest))"
| "unescapeToken s = s"

definition parsePointer :: "string \<Rightarrow> string list option" where
  "parsePointer p =
     (case p of
        [] \<Rightarrow> None
      | c # rest \<Rightarrow>
          if c \<noteq> CHR ''#'' then None
          else (case rest of
                  [] \<Rightarrow> Some []
                | d # tokens \<Rightarrow>
                    if d = CHR ''/'' then Some (map unescapeToken (splitOn CHR ''/'' tokens))
                    else None))"

text \<open>
  Modelled from the spec: a \<^verbatim>\<open>$ref\<close> target is a location in the document, the member
  names and element indices that lead to it from the root. Following a pointer yields the
  location it names and the subtree there.
\<close>

datatype step = Field string | Index nat

fun walk :: "jsval \<Rightarrow> string list \<Rightarrow> (step list \<times> jsval) option" where
  "walk v [] = Some ([], v)"
| "walk (JObj kvs) (t # ts) =
     (case map_of kvs t of
        None \<Rightarrow> None
      | Some c \<Rightarrow> map_option (\<lambda>(loc, target). (Field t # loc, target)) (walk c ts))"
| "walk (JArr xs) (t # ts) =
     (case parseIndex t of
        None \<Rightarrow> None
      | Some i \<Rightarrow>
          if i < length xs
          then map_option (\<lambda>(loc, target). (Index i # loc, target)) (walk (xs ! i) ts)
          else None)"
| "walk v (t # ts) = None"

definition deref :: "jsval \<Rightarrow> string \<Rightarrow> (step list \<times> jsval) option" where
  "deref root p = (case parsePointer p of None \<Rightarrow> None | Some ts \<Rightarrow> walk root ts)"

text \<open>
  Modelled from the spec: the reference an object makes is the value of its \<^verbatim>\<open>$ref\<close>,
  when that is a string.
\<close>

definition refOf :: "(string \<times> jsval) list \<Rightarrow> string option" where
  "refOf kvs = (case map_of kvs ''$ref'' of Some (JStr p) \<Rightarrow> Some p | _ \<Rightarrow> None)"

text \<open>
  Modelled from the spec: the sentinel empty object schema
  \<^verbatim>\<open>{ type: "object", properties: {} }\<close>.
\<close>

definition sentinel :: jsval where
  "sentinel = JObj [(''type'', JStr ''object''), (''properties'', JObj [])]"

text \<open>
  All locations of a document, and the number of them that are not on the resolution path:
  the quantity that decreases each time the resolver follows a reference.
\<close>

lemma size_enumerate_elem:
  "(i, v) \<in> set (enumerate n xs) \<Longrightarrow> size v < Suc (size_list size xs)"
proof -
  assume "(i, v) \<in> set (enumerate n xs)"
  then have "v \<in> set xs" by (auto simp add: in_set_enumerate_eq)
  then have "size v \<le> size_list size xs" by (rule size_item_le)
  then show ?thesis by simp
qed

function locations :: "jsval \<Rightarrow> step list list" where
  "locations (JObj kvs) =
     [] # concat (map (\<lambda>(k, v). map ((#) (Field k)) (locations v)) kvs)"
| "locations (JArr xs) =
     [] # concat (map (\<lambda>(i, v). map ((#) (Index i)) (locations v)) (enumerate 0 xs))"
| "locations JUndefined = [[]]"
| "locations JNull = [[]]"
| "locations (JBool b) = [[]]"
| "locations (JNum n) = [[]]"
| "locations (JBigInt i) = [[]]"
| "locations (JStr s) = [[]]"
| "locations (JSymbol k) = [[]]"
| "locations (JFunction k) = [[]]"
  by pat_completeness auto
termination
  by (relation "measure size")
     (auto simp add: size_enumerate_elem dest: size_field_le [THEN less_SucI])

definition unvisited :: "jsval \<Rightarrow> step list list \<Rightarrow> nat" where
  "unvisited root path = card (set (locations root) - set path)"

lemma walk_location: "walk v ts = Some (loc, target) \<Longrightarrow> loc \<in> set (locations v)"
proof (induction v ts arbitrary: loc target rule: walk.induct)
  case (1 v)
  then show ?case by (cases v) auto
next
  case (2 kvs t ts)
  then obtain c where c: "map_of kvs t = Some c"
    by (auto split: option.splits)
  with 2 obtain l where l: "walk c ts = Some (l, target)" "loc = Field t # l"
    by (auto split: option.splits)
  have "(t, c) \<in> set kvs" using c by (rule map_of_SomeD)
  moreover have "l \<in> set (locations c)" using 2 c l by simp
  ultimately show ?case using l by force
next
  case (3 xs t ts)
  then obtain i where i: "parseIndex t = Some i" "i < length xs"
    by (auto split: option.splits if_splits)
  with 3 obtain l where l: "walk (xs ! i) ts = Some (l, target)" "loc = Index i # l"
    by (auto split: option.splits)
  have "(i, xs ! i) \<in> set (enumerate 0 xs)" using i by (simp add: in_set_enumerate_eq)
  moreover have "l \<in> set (locations (xs ! i))" using 3 i l by simp
  ultimately show ?case using l by force
qed simp_all

lemma deref_location: "deref root p = Some (loc, target) \<Longrightarrow> loc \<in> set (locations root)"
  by (auto simp add: deref_def split: option.splits dest: walk_location)

lemma unvisited_less:
  "loc \<in> set (locations root) \<Longrightarrow> loc \<notin> set path \<Longrightarrow>
     unvisited root (loc # path) < unvisited root path"
  unfolding unvisited_def
  by (intro psubset_card_mono) auto

text \<open>
  Modelled from the spec: \<^verbatim>\<open>resolveRefs root path schema\<close> replaces every reference
  object by the resolved subtree it refers to. The path holds the targets of the references
  being resolved. A reference that does not resolve fails with \<^verbatim>\<open>UnresolvedReference\<close>;
  a reference to a target that is already on the path (its second encounter) is replaced by
  the sentinel; the members of any other object and the elements of an array are resolved
  in order, the first failure ending the resolution.
\<close>

function resolveRefs :: "jsval \<Rightarrow> step list list \<Rightarrow> jsval \<Rightarrow> error + jsval"
  and resolveFields ::
    "jsval \<Rightarrow> step list list \<Rightarrow> (string \<times> jsval) list \<Rightarrow> error + (string \<times> jsval) list"
  and resolveItems :: "jsval \<Rightarrow> step list list \<Rightarrow> jsval list \<Rightarrow> error + jsval list"
where
  "resolveRefs root path (JObj kvs) =
     (case refOf kvs of
        Some p \<Rightarrow>
          (case deref root p of
             None \<Rightarrow> Inl UnresolvedReference
           | Some (loc, target) \<Rightarrow>
               if loc \<in> set path then Inr sentinel
               else resolveRefs root (loc # path) target)
      | None \<Rightarrow>
          (case resolveFields root path kvs of
             Inl e \<Rightarrow> Inl e
           | Inr kvs' \<Rightarrow> Inr (JObj kvs')))"
| "resolveRefs root path (JArr xs) =
     (case resolveItems root path xs of
        Inl e \<Rightarrow> Inl e
      | Inr xs' \<Rightarrow> Inr (JArr xs'))"
| "resolveRefs root path JUndefined = Inr JUndefined"
| "resolveRefs root path JNull = Inr JNull"
| "resolveRefs root path (JBool b) = Inr (JBool b)"
| "resolveRefs root path (JNum n) = Inr (JNum n)"
| "resolveRefs root path (JBigInt i) = Inr (JBigInt i)"
| "resolveRefs root path (JStr s) = Inr (JStr s)"
| "resolveRefs root path (JSymbol k) = Inr (JSymbol k)"
| "resolveRefs root path (JFunction k) = Inr (JFunction k)"
| "resolveFields root path [] = Inr []"
| "resolveFields root path ((k, v) # rest) =
     (case resolveRefs root path v of
        Inl e \<Rightarrow> Inl e
      | Inr v' \<Rightarrow>
          (case resolveFields root path rest of
             Inl e \<Rightarrow> Inl e
           | Inr rest' \<Rightarrow> Inr ((k, v') # rest')))"
| "resolveItems root path [] = Inr []"
| "resolveItems root path (x # rest) =
     (case resolveRefs root path x of
        Inl e \<Rightarrow> Inl e
      | Inr x' \<Rightarrow>
          (case resolveItems root path rest of
             Inl e \<Rightarrow> Inl e
           | Inr rest' \<Rightarrow> Inr (x' # rest')))"
  by pat_completeness auto

text \<open>
  Every call of the resolver decreases, lexicographically, the number of unvisited
  locations of the root document and the size of the argument.
\<close>

definition resolveMeasure ::
  "(jsval \<times> step list list \<times> jsval)
   + (jsval \<times> step list list \<times> (string \<times> jsval) list)
   + (jsval \<times> step list list \<times> jsval list) \<Rightarrow> nat \<times> nat" where
  "resolveMeasure c =
     (case c of
        Inl (root, path, v) \<Rightarrow> (unvisited root path, size v)
      | Inr (Inl (root, path, kvs)) \<Rightarrow>
          (unvisited root path, size_list (size_prod (\<lambda>x. 0) size) kvs)
      | Inr (Inr (root, path, xs)) \<Rightarrow> (unvisited root path, size_list size xs))"

lemma resolve_terminates: "All resolveRefs_resolveFields_resolveItems_dom"
proof (relation "inv_image (less_than <*lex*> less_than) resolveMeasure")
  show "wf (inv_image (less_than <*lex*> less_than) resolveMeasure)"
    by (intro wf_inv_image wf_lex_prod wf_less_than)
qed (auto simp add: resolveMeasure_def unvisited_less deref_location)

termination resolveRefs
  by (rule resolve_terminates)

text \<open>
  Modelled from the spec: after resolution \<^verbatim>\<open>definitions\<close> is emptied, the container
  itself remaining.
\<close>

fun emptyDefinitions :: "jsval \<Rightarrow> jsval" where
  "emptyDefinitions (JObj kvs) =
     JObj (map (\<lambda>(k, v). if k = ''definitions'' then (k, JObj []) else (k, v)) kvs)"
| "emptyDefinitions v = v"

definition dereference :: "jsval \<Rightarrow> error + jsval" where
  "dereference root =
     (case resolveRefs root [] root of
        Inl e \<Rightarrow> Inl e
      | Inr resolved \<Rightarrow> Inr (emptyDefinitions resolved))"

text \<open>
  A reference object that does not resolve, at a position the resolver reaches by
  descending through members and elements: not inside another reference object, whose
  members are replaced with it.
\<close>

fun danglingRef :: "jsval \<Rightarrow> jsval \<Rightarrow> bool" where
  "danglingRef root (JObj kvs) =
     (case refOf kvs of
        Some p \<Rightarrow> deref root p = None
      | None \<Rightarrow> list_ex (\<lambda>kv. danglingRef root (snd kv)) kvs)"
| "danglingRef root (JArr xs) = list_ex (danglingRef root) xs"
| "danglingRef root v = False"

subsection \<open>process\<close>

text \<open>
  Modelled from the spec: \<^verbatim>\<open>process(input)\<close> runs the pipeline. The input is a JSON
  Schema when it is a boolean or an object that \<^verbatim>\<open>shouldProcess\<close> accepts; an object
  whose \<^verbatim>\<open>$schema\<close> names an unsupported draft fails with
  \<^verbatim>\<open>UnsupportedSchemaDraft\<close>, any other value with \<^verbatim>\<open>InvalidInput\<close>. The name
  reflector runs with the seed \<^verbatim>\<open>root\<close>, then the resolver, whose failure surfaces as
  \<^verbatim>\<open>UnresolvedReference\<close>. The conversion of the resolved schema into common models
  (the interpreter and the simplifier) is the parameter \<^verbatim>\<open>convert\<close>; the result pairs
  the models with the input as it was given.
\<close>

definition process :: "(jsval \<Rightarrow> 'm) \<Rightarrow> jsval \<Rightarrow> error + ('m \<times> jsval)" where
  "process convert input =
     (if typeof input = ''boolean'' \<or> shouldProcess input then
        (case dereference (reflectSchemaNames input None ''root'' True) of
           Inl e \<Rightarrow> Inl UnresolvedReference
         | Inr resolved \<Rightarrow> Inr (convert resolved, input))
      else (case input of
              JObj kvs \<Rightarrow> Inl UnsupportedSchemaDraft
            | _ \<Rightarrow> Inl InvalidInput))"

section \<open>Sample inputs\<close>

text \<open>The inputs of the \<^verbatim>\<open>shouldProcess()\<close> tests.\<close>

definition draft99 :: jsval where
  "draft99 = JObj [(''$schema'', JStr ''http://json-schema.org/draft-99/schema#'')]"

definition draft07 :: jsval where
  "draft07 = JObj [(''$schema'', JStr ''http://json-schema.org/draft-07/schema#'')]"

text \<open>A document whose only reference points at a definition it does not have.\<close>

definition wrongReferences :: jsval where
  "wrongReferences =
     JObj [(''properties'',
            JObj [(''street_address'', JObj [(''$ref'', JStr ''#/definitions/address'')])])]"

text \<open>
  A document with a reference cycle, \<^verbatim>\<open>address\<close> referring to itself through its
  property \<^verbatim>\<open>floor\<close>, and the resolved document the test on circular references
  expects.
\<close>

definition cyclicDoc :: jsval where
  "cyclicDoc =
     JObj [(''definitions'',
            JObj [(''address'',
                   JObj [(''type'', JStr ''object''),
                         (''properties'',
                          JObj [(''floor'',
                                 JObj [(''$ref'', JStr ''#/definitions/address'')])])])]),
           (''properties'',
            JObj [(''street_address'', JObj [(''$ref'', JStr ''#/definitions/address'')])])]"

definition cyclicResolved :: jsval where
  "cyclicResolved =
     JObj [(''definitions'', JObj []),
           (''properties'',
            JObj [(''street_address'',
                   JObj [(''type'', JStr ''object''),
                         (''properties'', JObj [(''floor'', sentinel)])])])]"

text \<open>
  The schema of the inferred-naming scenario, \<^verbatim>\<open>inner\<close> nested in \<^verbatim>\<open>outer\<close>, and
  the schema of the \<^verbatim>\<open>reflectSchemaName()\<close> test.
\<close>

definition outerSchema :: jsval where
  "outerSchema = JObj [(''properties'', JObj [(''inner'', JObj [(''type'', JStr ''object'')])])]"

definition outerInner :: jsval where
  "outerInner = JObj [(''properties'', JObj [(''outer'', outerSchema)])]"

definition stringSchema :: jsval where
  "stringSchema = JObj [(''type'', JStr ''string'')]"

definition reflectTestSchema :: jsval where
  "reflectTestSchema = JObj
    [(''properties'', JObj
        [(''prop'', stringSchema),
         (''allOfCase'', JObj [(''allOf'', JArr [stringSchema, stringSchema])]),
         (''object'', JObj [(''type'', JStr ''object''),
                            (''properties'', JObj [(''prop'', stringSchema)])]),
         (''propWithObject'', JObj [(''type'', JStr ''object''),
            (''properties'', JObj [(''propWithObject'', JObj [(''type'', JStr ''object'')])])])]),
     (''patternProperties'', JObj [(''patternProp'', stringSchema)]),
     (''dependencies'', JObj [(''dep'', stringSchema)]),
     (''definitions'', JObj
        [(''def'', stringSchema),
         (''oneOfCase'', JObj [(''oneOf'', JArr [stringSchema, stringSchema])])]),
     (''anyOf'', JArr
        [stringSchema,
         JObj [(''type'', JStr ''object''), (''properties'', JObj [(''prop'', stringSchema)])]])]"


text \<open>A model of type \<^verbatim>\<open>"object"\<close> with no other field set.\<close>

definition bareObject :: commonModel where
  "bareObject =
     CommonModel None (Some (TStr ''object'')) None None None None None None None None None"

text \<open>A model of type \<^verbatim>\<open>"object"\<close> with one property.\<close>

definition objectModel :: commonModel where
  "objectModel =
     CommonModel None (Some (TStr ''object'')) None None (Some [(''p'', stringModel)])
       None None None None None None"

text \<open>A model whose type lists each of the seven JSON types once and that has a property.\<close>

definition anyModel :: commonModel where
  "anyModel =
     CommonModel None (Some (TArr jsonTypes)) None None (Some [(''p'', bareObject)])
       None None None None None None"

section \<open>Properties of Utils.ts\<close>

lemma jsonTypes_length: "distinct ts \<Longrightarrow> set ts = set jsonTypes \<Longrightarrow> length ts = 7"
proof -
  assume d: "distinct ts" and s: "set ts = set jsonTypes"
  have "distinct jsonTypes" by (simp add: jsonTypes_def)
  then have "card (set jsonTypes) = length jsonTypes" by (rule distinct_card)
  moreover have "card (set ts) = length ts" using d by (rule distinct_card)
  ultimately show ?thesis using s by (simp add: jsonTypes_def)
qed

text \<open>
  C1, as stated, fails: the claim gives \<^verbatim>\<open>$id\<close> precedence over \<^verbatim>\<open>title\<close>, but
  \<^verbatim>\<open>interpretName\<close> reads \<^verbatim>\<open>title\<close> first. On a schema carrying both, the \<^verbatim>\<open>$id\<close>
  is \<^verbatim>\<open>"A"\<close> and the name returned is the title \<^verbatim>\<open>"B"\<close>.
\<close>

theorem interpretName_id_first_counterexample:
  "getProp (JObj [(''$id'', JStr ''A''), (''title'', JStr ''B'')]) ''$id'' = JStr ''A''
   \<and> interpretName (JObj [(''$id'', JStr ''A''), (''title'', JStr ''B'')]) = JStr ''B''"
  by (simp add: interpretName_def jsOr_def)

text \<open>
  C1, amended: for every schema object, the name is chosen with precedence \<^verbatim>\<open>title\<close>
  first, then \<^verbatim>\<open>$id\<close>, then \<^verbatim>\<open>x-modelgen-inferred-name\<close>: the first of the three
  whose value is truthy (present and not the empty string), and the value of
  \<^verbatim>\<open>x-modelgen-inferred-name\<close> when neither \<^verbatim>\<open>title\<close> nor \<^verbatim>\<open>$id\<close> is.
\<close>

theorem interpretName_precedence:
  "interpretName (JObj kvs) =
     (if truthy (getProp (JObj kvs) ''title'') then getProp (JObj kvs) ''title''
      else if truthy (getProp (JObj kvs) ''$id'') then getProp (JObj kvs) ''$id''
      else getProp (JObj kvs) ''x-modelgen-inferred-name'')"
  by (simp add: interpretName_def jsOr_def)

text \<open>
  C2, as stated, fails: a model whose \<^verbatim>\<open>type\<close> lists the seven JSON types includes
  \<^verbatim>\<open>object\<close> and may have \<^verbatim>\<open>properties\<close>, which makes it an object model by the
  claim; \<^verbatim>\<open>isModelObject\<close> answers false for it, by its explicit check of the length.
\<close>

theorem isModelObject_seven_types_counterexample:
  "m_type anyModel = Some (TArr jsonTypes) \<and> typeIncludes (TArr jsonTypes) ''object''
   \<and> m_properties anyModel = Some [(''p'', bareObject)]
   \<and> isModelObject anyModel = False"
  by (simp add: isModelObject_def anyModel_def jsonTypes_def)

text \<open>
  What \<^verbatim>\<open>isModelObject\<close> answers for a model of type \<^verbatim>\<open>"object"\<close> with none of
  \<^verbatim>\<open>properties\<close>, \<^verbatim>\<open>extend\<close>, \<^verbatim>\<open>patternProperties\<close> and
  \<^verbatim>\<open>additionalProperties\<close>: it reads the type only. Its comment says that the check of
  \<^verbatim>\<open>extend\<close> and \<^verbatim>\<open>properties\<close> should be done instead and needs a refactor.
\<close>

lemma isModelObject_bareObject:
  "isModelObject bareObject
   \<and> m_properties bareObject = None \<and> m_extend bareObject = None
   \<and> m_patternProperties bareObject = None \<and> m_additionalProperties bareObject = None"
  by (simp add: isModelObject_def bareObject_def)

text \<open>
  C2, amended: a CommonModel is classified as an object model only if its \<^verbatim>\<open>type\<close> is
  defined, includes \<^verbatim>\<open>object\<close> and is not an array of length seven; and a model with
  such a type that has at least one of \<^verbatim>\<open>properties\<close>, \<^verbatim>\<open>extend\<close>,
  \<^verbatim>\<open>patternProperties\<close> and \<^verbatim>\<open>additionalProperties\<close> is classified as an object
  model. Nothing is said of a model of such a type that has none of the four.
\<close>

theorem isModelObject_type:
  "(isModelObject model \<longrightarrow>
      (\<exists>t. m_type model = Some t \<and> typeIncludes t ''object''
           \<and> (isArrayType t \<longrightarrow> typeLength t \<noteq> 7)))
   \<and> ((\<exists>t. m_type model = Some t \<and> typeIncludes t ''object''
           \<and> (isArrayType t \<longrightarrow> typeLength t \<noteq> 7))
        \<and> (m_properties model \<noteq> None \<or> m_extend model \<noteq> None
             \<or> m_patternProperties model \<noteq> None \<or> m_additionalProperties model \<noteq> None)
       \<longrightarrow> isModelObject model)"
  by (auto simp add: isModelObject_def split: option.splits)

theorem isModelObject_type_witness:
  "m_type objectModel = Some (TStr ''object'') \<and> typeIncludes (TStr ''object'') ''object''
   \<and> m_properties objectModel = Some [(''p'', stringModel)]
   \<and> isModelObject objectModel
   \<and> (\<exists>t. m_type objectModel = Some t \<and> typeIncludes t ''object''
           \<and> isArrayType t = False)"
proof -
  have t: "\<exists>t. m_type objectModel = Some t \<and> typeIncludes t ''object''
             \<and> (isArrayType t \<longrightarrow> typeLength t \<noteq> 7)"
    by (simp add: objectModel_def)
  have p: "m_properties objectModel \<noteq> None" by (simp add: objectModel_def)
  have "isModelObject objectModel"
    using isModelObject_type [of objectModel] t p by blast
  then show ?thesis by (simp add: objectModel_def)
qed

text \<open>
  C4: a CommonModel whose \<^verbatim>\<open>type\<close> lists exactly the seven JSON types, each once, has
  \<^verbatim>\<open>object\<close> among them and is nevertheless not classified as an object model. The
  classification is what decides whether a model is extracted as an object sub-model.
\<close>

theorem isModelObject_all_types:
  "m_type model = Some (TArr ts) \<Longrightarrow> distinct ts \<Longrightarrow> set ts = set jsonTypes \<Longrightarrow>
     typeIncludes (TArr ts) ''object'' \<and> \<not> isModelObject model"
  using jsonTypes_length [of ts] by (auto simp add: isModelObject_def jsonTypes_def)

theorem isModelObject_all_types_witness:
  "m_type anyModel = Some (TArr jsonTypes) \<and> distinct jsonTypes
   \<and> typeIncludes (TArr jsonTypes) ''object'' \<and> \<not> isModelObject anyModel"
  using isModelObject_all_types [of anyModel jsonTypes]
  by (simp add: anyModel_def jsonTypes_def)

text \<open>
  C5: on every value, \<^verbatim>\<open>inferTypeFromValue\<close> agrees with \<^verbatim>\<open>typeof\<close>, except that an
  array gives \<^verbatim>\<open>array\<close>, \<^verbatim>\<open>null\<close> gives \<^verbatim>\<open>null\<close> and a bigint gives \<^verbatim>\<open>integer\<close>.
  The JSON values (null, booleans, numbers, strings, arrays, objects) are among the values
  covered.
\<close>

theorem inferTypeFromValue_typeof:
  "inferTypeFromValue v =
     (case v of
        JArr xs \<Rightarrow> ''array''
      | JNull \<Rightarrow> ''null''
      | JBigInt i \<Rightarrow> ''integer''
      | _ \<Rightarrow> typeof v)"
  by (cases v) (simp_all add: inferTypeFromValue_def)

section \<open>Properties of the keyword handlers\<close>

lemma patternPropertiesLoop_registers:
  "patternPropertiesLoop add interpret schema entries model interpreter =
     (foldl (\<lambda>m (pattern, newModel). add pattern newModel schema m) model
        (registered (fst (interpretations interpret interpreter entries))),
      snd (interpretations interpret interpreter entries))"
proof (induction entries arbitrary: model interpreter)
  case Nil
  show ?case by (simp add: registered_def)
next
  case (Cons e entries)
  obtain pattern patternSchema where e: "e = (pattern, patternSchema)"
    by (cases e)
  obtain newModels interpreter'
    where i: "interpret interpreter patternSchema = (newModels, interpreter')"
    by (cases "interpret interpreter patternSchema")
  obtain results interpreter''
    where r: "interpretations interpret interpreter' entries = (results, interpreter'')"
    by (cases "interpretations interpret interpreter' entries")
  show ?case
  proof (cases newModels)
    case Nil
    then show ?thesis
      using e i r Cons.IH [of model interpreter'] by (simp add: registered_def)
  next
    case (Cons m ms)
    then show ?thesis
      using e i r Cons.IH [of "add pattern m schema model" interpreter']
      by (simp add: registered_def)
  qed
qed

text \<open>
  C9: a boolean schema leaves the model (and the interpreter) unchanged. For a non-boolean
  schema the handler interprets every entry of \<^verbatim>\<open>patternProperties\<close> in order; the
  entries the interpreter answers with an empty list are skipped, and for each of the
  others \<^verbatim>\<open>addPatternProperty\<close> is applied to the parent model with the entry's
  pattern, the first model of the answer and the schema, in the order of the entries.
\<close>

theorem interpretPatternProperties_registers:
  "interpretPatternProperties add interpret (SBool b) model interpreter = (model, interpreter)
   \<and> interpretPatternProperties add interpret (SObj i t e its ps ap pps r rq) model interpreter =
       (foldl (\<lambda>m (pattern, newModel). add pattern newModel (SObj i t e its ps ap pps r rq) m)
          model
          (registered (fst (interpretations interpret interpreter
             (case pps of None \<Rightarrow> [] | Some entries \<Rightarrow> entries)))),
        snd (interpretations interpret interpreter
             (case pps of None \<Rightarrow> [] | Some entries \<Rightarrow> entries)))"
  by (simp add: patternPropertiesLoop_registers)

text \<open>
  C10: when the model's \<^verbatim>\<open>type\<close> is undefined or does not include \<^verbatim>\<open>object\<close>, the
  \<^verbatim>\<open>additionalProperties\<close> handler returns the model and the interpreter as they were,
  whatever the schema, the interpreter and \<^verbatim>\<open>addAdditionalProperty\<close> are: neither is
  called.
\<close>

theorem interpretAdditionalProperties_not_object:
  "m_type model = None \<or> (\<exists>t. m_type model = Some t \<and> typeIncludes t ''object'' = False) \<Longrightarrow>
     interpretAdditionalProperties addAdditionalProperty interpret schema model interpreter =
       (model, interpreter)"
  by (cases schema) (auto simp add: isModelObject_def)

theorem interpretAdditionalProperties_not_object_witness:
  "(\<exists>t. m_type stringModel = Some t \<and> typeIncludes t ''object'' = False)
   \<and> interpretAdditionalProperties (\<lambda>m s model. m) (\<lambda>i s. ([bareObject], Suc i))
        emptySchema stringModel (0::nat) = (stringModel, 0)
   \<and> interpretAdditionalProperties (\<lambda>m s model. m) (\<lambda>i s. ([bareObject], Suc i))
        emptySchema bareObject (0::nat) = (bareObject, 1)"
proof -
  have h: "\<exists>t. m_type stringModel = Some t \<and> typeIncludes t ''object'' = False"
    by (simp add: stringModel_def)
  have "interpretAdditionalProperties (\<lambda>m s model. m) (\<lambda>i s. ([bareObject], Suc i))
          emptySchema stringModel (0::nat) = (stringModel, 0)"
    using h by (intro interpretAdditionalProperties_not_object) simp
  moreover have "interpretAdditionalProperties (\<lambda>m s model. m) (\<lambda>i s. ([bareObject], Suc i))
          emptySchema bareObject (0::nat) = (bareObject, 1)"
    by (simp add: emptySchema_def bareObject_def isModelObject_def)
  ultimately show ?thesis using h by simp
qed

section \<open>Properties of the input processor\<close>

text \<open>
  C6: on every input object whose \<^verbatim>\<open>$schema\<close> is set and names no supported draft,
  \<^verbatim>\<open>process\<close> fails with \<^verbatim>\<open>UnsupportedSchemaDraft\<close> and \<^verbatim>\<open>shouldProcess\<close> is
  false; and \<^verbatim>\<open>shouldProcess\<close> is true if and only if the input is an object with no
  \<^verbatim>\<open>$schema\<close> or with \<^verbatim>\<open>$schema\<close> naming a supported draft.
\<close>

theorem process_unsupported_draft:
  "(getProp (JObj kvs) ''$schema'' \<noteq> JUndefined
      \<and> (\<forall>s. List.member supportedDrafts s \<longrightarrow> getProp (JObj kvs) ''$schema'' \<noteq> JStr s)
    \<longrightarrow> process convert (JObj kvs) = Inl UnsupportedSchemaDraft
        \<and> shouldProcess (JObj kvs) = False)
   \<and> (shouldProcess input \<longleftrightarrow>
        (\<exists>fields. input = JObj fields
           \<and> (getProp input ''$schema'' = JUndefined
               \<or> (\<exists>s. List.member supportedDrafts s \<and> getProp input ''$schema'' = JStr s))))"
proof (intro conjI impI)
  assume a: "getProp (JObj kvs) ''$schema'' \<noteq> JUndefined
      \<and> (\<forall>s. List.member supportedDrafts s \<longrightarrow> getProp (JObj kvs) ''$schema'' \<noteq> JStr s)"
  then show sp: "shouldProcess (JObj kvs) = False"
    by (cases "getProp (JObj kvs) ''$schema''") auto
  then show "process convert (JObj kvs) = Inl UnsupportedSchemaDraft"
    by (simp add: process_def)
next
  show "shouldProcess input \<longleftrightarrow>
        (\<exists>fields. input = JObj fields
           \<and> (getProp input ''$schema'' = JUndefined
               \<or> (\<exists>s. List.member supportedDrafts s \<and> getProp input ''$schema'' = JStr s)))"
  proof (cases input)
    case (JObj fields)
    then show ?thesis by (cases "getProp (JObj fields) ''$schema''") auto
  qed simp_all
qed

theorem process_unsupported_draft_witness:
  "process (\<lambda>v. v) draft99 = Inl UnsupportedSchemaDraft
   \<and> shouldProcess draft99 = False
   \<and> shouldProcess draft07 \<and> shouldProcess (JObj [])"
proof -
  have "getProp draft99 ''$schema'' \<noteq> JUndefined
      \<and> (\<forall>s. List.member supportedDrafts s \<longrightarrow> getProp draft99 ''$schema'' \<noteq> JStr s)"
    by (simp add: draft99_def supportedDrafts_def)
  then have "process (\<lambda>v. v) draft99 = Inl UnsupportedSchemaDraft
             \<and> shouldProcess draft99 = False"
    using process_unsupported_draft
            [of "[(''$schema'', JStr ''http://json-schema.org/draft-99/schema#'')]" "\<lambda>v. v"]
    by (simp add: draft99_def)
  moreover have "shouldProcess draft07" "shouldProcess (JObj [])"
    by (simp_all add: draft07_def supportedDrafts_def)
  ultimately show ?thesis by simp
qed

lemma resolveFields_fails:
  "(k, v) \<in> set kvs \<Longrightarrow> resolveRefs root path v = Inl e \<Longrightarrow>
     \<exists>e'. resolveFields root path kvs = Inl e'"
  by (induction kvs) (auto split: sum.splits)

lemma resolveItems_fails:
  "v \<in> set xs \<Longrightarrow> resolveRefs root path v = Inl e \<Longrightarrow>
     \<exists>e'. resolveItems root path xs = Inl e'"
  by (induction xs) (auto split: sum.splits)

lemma danglingRef_fails: "danglingRef root v \<Longrightarrow> \<exists>e. resolveRefs root path v = Inl e"
proof (induction v)
  case (JArr xs)
  then obtain x where x: "x \<in> set xs" "danglingRef root x"
    by (auto simp add: list_ex_iff)
  with JArr.IH obtain e where "resolveRefs root path x = Inl e" by blast
  with x obtain e' where "resolveItems root path xs = Inl e'"
    using resolveItems_fails by blast
  then show ?case by simp
next
  case (JObj kvs)
  show ?case
  proof (cases "refOf kvs")
    case (Some p)
    with JObj.prems show ?thesis by simp
  next
    case None
    with JObj.prems obtain k v where kv: "(k, v) \<in> set kvs" "danglingRef root v"
      by (auto simp add: list_ex_iff)
    then have "v \<in> Basic_BNFs.snds (k, v)" by simp
    with JObj.IH kv obtain e where "resolveRefs root path v = Inl e" by blast
    with kv obtain e' where "resolveFields root path kvs = Inl e'"
      using resolveFields_fails by blast
    with None show ?thesis by simp
  qed
qed simp_all

lemma wrongReferences_dangling:
  "danglingRef (reflectSchemaNames wrongReferences None ''root'' True)
     (reflectSchemaNames wrongReferences None ''root'' True)"
  by (simp add: wrongReferences_def ownName_def inferredNameKey_def refOf_def deref_def
        parsePointer_def)

text \<open>
  C7: when the input is a JSON Schema and the document the resolver is given (the input
  with its inferred names) contains a reference that cannot be dereferenced within it,
  \<^verbatim>\<open>process\<close> fails with \<^verbatim>\<open>UnresolvedReference\<close>: no models are returned.
\<close>

theorem process_unresolved_reference:
  "typeof input = ''boolean'' \<or> shouldProcess input \<Longrightarrow>
   danglingRef (reflectSchemaNames input None ''root'' True)
     (reflectSchemaNames input None ''root'' True) \<Longrightarrow>
   process convert input = Inl UnresolvedReference"
proof -
  assume a: "typeof input = ''boolean'' \<or> shouldProcess input"
    and d: "danglingRef (reflectSchemaNames input None ''root'' True)
              (reflectSchemaNames input None ''root'' True)"
  from d obtain e
    where "resolveRefs (reflectSchemaNames input None ''root'' True) []
             (reflectSchemaNames input None ''root'' True) = Inl e"
    using danglingRef_fails by blast
  then have "dereference (reflectSchemaNames input None ''root'' True) = Inl e"
    by (simp add: dereference_def)
  with a show ?thesis by (simp add: process_def)
qed

theorem process_unresolved_reference_witness:
  "shouldProcess wrongReferences
   \<and> danglingRef (reflectSchemaNames wrongReferences None ''root'' True)
       (reflectSchemaNames wrongReferences None ''root'' True)
   \<and> process (\<lambda>v. v) wrongReferences = Inl UnresolvedReference"
proof -
  have s: "shouldProcess wrongReferences" by (simp add: wrongReferences_def)
  with wrongReferences_dangling show ?thesis
    using process_unresolved_reference [of wrongReferences "\<lambda>v. v"] by simp
qed

lemma resolveFields_keys:
  "resolveFields root path kvs = Inr kvs' \<Longrightarrow> map fst kvs' = map fst kvs"
  by (induction kvs arbitrary: kvs') (auto split: sum.splits)

lemma map_of_emptied:
  "map_of (map (\<lambda>(k, v). if k = d then (k, e) else (k, v)) kvs) d =
     (if d \<in> fst ` set kvs then Some e else None)"
  by (induction kvs) auto

lemma emptyDefinitions_definitions:
  "getProp (emptyDefinitions v) ''definitions'' = JUndefined
   \<or> getProp (emptyDefinitions v) ''definitions'' = JObj []"
  by (cases v) (simp_all add: map_of_emptied)

lemma emptyDefinitions_present:
  "''definitions'' \<in> fst ` set kvs \<Longrightarrow>
     getProp (emptyDefinitions (JObj kvs)) ''definitions'' = JObj []"
  by (simp add: map_of_emptied)

lemma resolveRefs_reference:
  "refOf kvs = Some p \<Longrightarrow> deref root p = Some (loc, target) \<Longrightarrow>
     resolveRefs root path (JObj kvs) =
       (if loc \<in> set path then Inr sentinel else resolveRefs root (loc # path) target)"
  by simp

lemma cyclicDoc_dereference: "dereference cyclicDoc = Inr cyclicResolved"
  by (simp add: dereference_def cyclicDoc_def cyclicResolved_def refOf_def deref_def
        parsePointer_def)

text \<open>
  C3: the resolver terminates on every document and every schema in it, cyclic ones
  included: the recursion of \<^verbatim>\<open>resolveRefs\<close> is well-founded from every argument (its
  domain predicate, the accessible part of its call relation, holds everywhere). A
  reference to a target that is already on the resolution path yields the sentinel empty
  object schema; a reference to a target met for the first time is resolved with the
  target added to the path. After resolution, \<^verbatim>\<open>definitions\<close> is absent or empty, and it
  is empty when the document is not itself a reference and has the container.
\<close>

theorem resolveRefs_cycles:
  "resolveRefs_resolveFields_resolveItems_dom (Inl (root, path, schema))
   \<and> (refOf kvs = Some p \<and> deref root p = Some (loc, target) \<and> loc \<in> set path \<longrightarrow>
        resolveRefs root path (JObj kvs) = Inr sentinel)
   \<and> (refOf kvs = Some p \<and> deref root p = Some (loc, target) \<and> loc \<notin> set path \<longrightarrow>
        resolveRefs root path (JObj kvs) = resolveRefs root (loc # path) target)
   \<and> (dereference root = Inr resolved \<longrightarrow>
        getProp resolved ''definitions'' = JUndefined
        \<or> getProp resolved ''definitions'' = JObj [])
   \<and> (dereference (JObj fields) = Inr resolved \<and> refOf fields = None
        \<and> map_of fields ''definitions'' \<noteq> None \<longrightarrow>
        getProp resolved ''definitions'' = JObj [])"
proof (intro conjI impI)
  show "resolveRefs_resolveFields_resolveItems_dom (Inl (root, path, schema))"
    using resolve_terminates by blast
next
  assume "refOf kvs = Some p \<and> deref root p = Some (loc, target) \<and> loc \<in> set path"
  then show "resolveRefs root path (JObj kvs) = Inr sentinel"
    by (simp add: resolveRefs_reference)
next
  assume "refOf kvs = Some p \<and> deref root p = Some (loc, target) \<and> loc \<notin> set path"
  then show "resolveRefs root path (JObj kvs) = resolveRefs root (loc # path) target"
    by (simp add: resolveRefs_reference)
next
  assume "dereference root = Inr resolved"
  then obtain r where "resolved = emptyDefinitions r"
    by (auto simp add: dereference_def split: sum.splits)
  then show "getProp resolved ''definitions'' = JUndefined
             \<or> getProp resolved ''definitions'' = JObj []"
    using emptyDefinitions_definitions [of r] by simp
next
  assume a: "dereference (JObj fields) = Inr resolved \<and> refOf fields = None
        \<and> map_of fields ''definitions'' \<noteq> None"
  then obtain kvs' where k: "resolveFields (JObj fields) [] fields = Inr kvs'"
      "resolved = emptyDefinitions (JObj kvs')"
    by (auto simp add: dereference_def split: sum.splits)
  then have "map fst kvs' = map fst fields" by (simp add: resolveFields_keys)
  then have "set (map fst kvs') = set (map fst fields)" by simp
  then have "fst ` set kvs' = fst ` set fields" by (simp only: set_map)
  moreover have "''definitions'' \<in> fst ` set fields"
    using a by (simp add: map_of_eq_None_iff)
  ultimately have "''definitions'' \<in> fst ` set kvs'" by simp
  then show "getProp resolved ''definitions'' = JObj []"
    unfolding k(2) by (rule emptyDefinitions_present)
qed

theorem resolveRefs_cycles_witness:
  "resolveRefs_resolveFields_resolveItems_dom (Inl (cyclicDoc, [], cyclicDoc))
   \<and> resolveRefs cyclicDoc [[Field ''definitions'', Field ''address'']]
        (JObj [(''$ref'', JStr ''#/definitions/address'')]) = Inr sentinel
   \<and> dereference cyclicDoc = Inr cyclicResolved
   \<and> getProp cyclicResolved ''definitions'' = JObj []"
proof -
  have r: "refOf [(''$ref'', JStr ''#/definitions/address'')] = Some ''#/definitions/address''"
    by (simp add: refOf_def)
  obtain target where t: "deref cyclicDoc ''#/definitions/address'' =
             Some ([Field ''definitions'', Field ''address''], target)"
    by (simp add: deref_def parsePointer_def cyclicDoc_def)
  obtain fields where fs: "cyclicDoc = JObj fields" "refOf fields = None"
             "map_of fields ''definitions'' \<noteq> None"
    by (simp add: cyclicDoc_def refOf_def)
  have "resolveRefs_resolveFields_resolveItems_dom (Inl (cyclicDoc, [], cyclicDoc))"
    using resolveRefs_cycles [of cyclicDoc "[]" cyclicDoc] by (rule conjunct1)
  moreover have "resolveRefs cyclicDoc [[Field ''definitions'', Field ''address'']]
        (JObj [(''$ref'', JStr ''#/definitions/address'')]) = Inr sentinel"
    using resolveRefs_cycles
            [of cyclicDoc "[[Field ''definitions'', Field ''address'']]" cyclicDoc
                "[(''$ref'', JStr ''#/definitions/address'')]" "''#/definitions/address''"
                "[Field ''definitions'', Field ''address'']" target] r t
    by simp
  moreover have "getProp cyclicResolved ''definitions'' = JObj []"
    using resolveRefs_cycles [of cyclicDoc "[]" cyclicDoc "[]" "[]" "[]" cyclicDoc
            cyclicResolved fields]
      cyclicDoc_dereference fs by simp
  ultimately show ?thesis using cyclicDoc_dereference by simp
qed

section \<open>Properties of the name reflector\<close>

lemma reflectSchemaNames_members:
  "reflectSchemaNames (JObj kvs) parentName name isRoot =
     JObj (map (\<lambda>(k, v). (k, reflectMember
                 (if isRoot then None else Some (ownName kvs parentName name isRoot)) k v)) kvs
           @ (if map_of kvs inferredNameKey = None
              then [(inferredNameKey, JStr (ownName kvs parentName name isRoot))] else []))"
  unfolding reflectMember_def by (simp add: Let_def)

lemma map_of_mapped:
  "map_of (map (\<lambda>(k, v). (k, f k v)) kvs) key = map_option (f key) (map_of kvs key)"
  by (induction kvs) auto

lemma memberOf_reflect:
  "key \<noteq> inferredNameKey \<Longrightarrow>
     memberOf (reflectSchemaNames (JObj kvs) pn n r) key =
       map_option (reflectMember (if r then None else Some (ownName kvs pn n r)) key)
         (map_of kvs key)"
  by (simp add: reflectSchemaNames_members map_of_mapped map_add_def
           del: reflectSchemaNames.simps split: option.splits)

lemma reflect_property:
  "memberOf (reflectMember prefix ''properties'' v) k =
     map_option (\<lambda>sub. reflectSchemaNames sub prefix k False) (memberOf v k)"
  by (cases v) (simp_all add: reflectMember_def map_of_mapped del: reflectSchemaNames.simps)

lemma reflect_dependency:
  "memberOf (reflectMember prefix ''dependencies'' v) k =
     map_option (\<lambda>sub. reflectSchemaNames sub prefix k False) (memberOf v k)"
  by (cases v) (simp_all add: reflectMember_def map_of_mapped del: reflectSchemaNames.simps)

lemma reflect_definition:
  "memberOf (reflectMember prefix ''definitions'' v) k =
     map_option (\<lambda>sub. reflectSchemaNames sub None k False) (memberOf v k)"
  by (cases v) (simp_all add: reflectMember_def map_of_mapped del: reflectSchemaNames.simps)

lemma reflect_allOf:
  "elementOf (reflectMember prefix ''allOf'' v) i =
     map_option (\<lambda>sub. reflectSchemaNames sub prefix (''allOf_'' @ showNat i) False)
       (elementOf v i)"
  by (cases v)
     (simp_all add: reflectMember_def nth_enumerate_eq del: reflectSchemaNames.simps showNat.simps)

lemma reflect_anyOf:
  "elementOf (reflectMember prefix ''anyOf'' v) i =
     map_option (\<lambda>sub. reflectSchemaNames sub prefix (''anyOf_'' @ showNat i) False)
       (elementOf v i)"
  by (cases v)
     (simp_all add: reflectMember_def nth_enumerate_eq del: reflectSchemaNames.simps showNat.simps)

lemma reflect_oneOf:
  "elementOf (reflectMember prefix ''oneOf'' v) i =
     map_option (\<lambda>sub. reflectSchemaNames sub prefix (''oneOf_'' @ showNat i) False)
       (elementOf v i)"
  by (cases v)
     (simp_all add: reflectMember_def nth_enumerate_eq del: reflectSchemaNames.simps showNat.simps)

lemma reflect_itemsAt:
  "elementOf (reflectMember prefix ''items'' v) i =
     map_option (\<lambda>sub. reflectSchemaNames sub prefix (''items_'' @ showNat i) False)
       (elementOf v i)"
  by (cases v)
     (simp_all add: reflectMember_def nth_enumerate_eq reflectSchemaNames_members
               del: reflectSchemaNames.simps(1) showNat.simps)

lemma reflect_items:
  "isArray v = False \<Longrightarrow>
     reflectMember prefix ''items'' v = reflectSchemaNames v prefix ''items'' False \<and>
     isArray (reflectSchemaNames v prefix ''items'' False) = False"
  by (cases v) (simp_all add: reflectMember_def Let_def)

lemma reflect_items_array:
  "isArray v \<Longrightarrow> isArray (reflectMember prefix ''items'' v)"
  by (cases v) (simp_all add: reflectMember_def)

lemma reflect_additionalProperties:
  "reflectMember prefix ''additionalProperties'' v =
     reflectSchemaNames v prefix ''additionalProperty'' False"
  by (simp add: reflectMember_def del: reflectSchemaNames.simps)

lemma reflect_not:
  "reflectMember prefix ''not'' v = reflectSchemaNames v prefix ''not'' False"
  by (simp add: reflectMember_def del: reflectSchemaNames.simps)

lemma reflect_patternProperty:
  "entryAt (reflectMember prefix ''patternProperties'' v) i =
     map_option (\<lambda>sub. reflectSchemaNames sub prefix (''pattern_property_'' @ showNat i) False)
       (entryAt v i)"
  by (cases v)
     (simp_all add: reflectMember_def nth_enumerate_eq
               del: reflectSchemaNames.simps showNat.simps split: prod.splits)

lemma subschemaAt_reflect:
  "subschemaAt (reflectSchemaNames (JObj kvs) pn n r) pos =
     map_option
       (\<lambda>sub. reflectSchemaNames sub
                (positionPrefix pos (if r then None else Some (ownName kvs pn n r)))
                (positionKey pos) False)
       (subschemaAt (JObj kvs) pos)"
proof (cases pos)
  case (Property k)
  then show ?thesis
    by (simp add: memberOf_reflect inferredNameKey_def reflect_property
             del: reflectSchemaNames.simps split: option.splits)
next
  case (AllOf i)
  then show ?thesis
    by (simp add: memberOf_reflect inferredNameKey_def reflect_allOf
             del: reflectSchemaNames.simps showNat.simps split: option.splits)
next
  case (AnyOf i)
  then show ?thesis
    by (simp add: memberOf_reflect inferredNameKey_def reflect_anyOf
             del: reflectSchemaNames.simps showNat.simps split: option.splits)
next
  case (OneOf i)
  then show ?thesis
    by (simp add: memberOf_reflect inferredNameKey_def reflect_oneOf
             del: reflectSchemaNames.simps showNat.simps split: option.splits)
next
  case Items
  show ?thesis
  proof (cases "map_of kvs ''items''")
    case None
    with Items show ?thesis
      by (simp add: memberOf_reflect inferredNameKey_def del: reflectSchemaNames.simps)
  next
    case (Some c)
    show ?thesis
    proof (cases "isArray c")
      case True
      with Items Some show ?thesis
        by (simp add: memberOf_reflect inferredNameKey_def reflect_items_array
                 del: reflectSchemaNames.simps)
    next
      case False
      with Items Some show ?thesis
        using reflect_items [of c "if r then None else Some (ownName kvs pn n r)"]
        by (simp add: memberOf_reflect inferredNameKey_def del: reflectSchemaNames.simps)
    qed
  qed
next
  case (ItemsAt i)
  then show ?thesis
    by (simp add: memberOf_reflect inferredNameKey_def reflect_itemsAt
             del: reflectSchemaNames.simps showNat.simps split: option.splits)
next
  case AdditionalProperties
  have "reflectMember (if r then None else Some (ownName kvs pn n r)) ''additionalProperties'' =
          (\<lambda>sub. reflectSchemaNames sub (if r then None else Some (ownName kvs pn n r))
                   ''additionalProperty'' False)"
    by (rule ext) (rule reflect_additionalProperties)
  with AdditionalProperties show ?thesis
    by (simp add: memberOf_reflect inferredNameKey_def del: reflectSchemaNames.simps)
next
  case (PatternProperty i)
  then show ?thesis
    by (simp add: memberOf_reflect inferredNameKey_def reflect_patternProperty
             del: reflectSchemaNames.simps showNat.simps split: option.splits)
next
  case (Dependency k)
  then show ?thesis
    by (simp add: memberOf_reflect inferredNameKey_def reflect_dependency
             del: reflectSchemaNames.simps split: option.splits)
next
  case (Definition k)
  then show ?thesis
    by (simp add: memberOf_reflect inferredNameKey_def reflect_definition
             del: reflectSchemaNames.simps split: option.splits)
next
  case Not
  have "reflectMember (if r then None else Some (ownName kvs pn n r)) ''not'' =
          (\<lambda>sub. reflectSchemaNames sub (if r then None else Some (ownName kvs pn n r))
                   ''not'' False)"
    by (rule ext) (rule reflect_not)
  with Not show ?thesis
    by (simp add: memberOf_reflect inferredNameKey_def del: reflectSchemaNames.simps)
qed

lemma reflect_inferredName:
  "map_of sub inferredNameKey = None \<Longrightarrow>
     inferredName (reflectSchemaNames (JObj sub) p key False) = Some (joinName p key)"
  by (simp add: inferredName_def reflectSchemaNames_members map_of_mapped map_add_def ownName_def
           del: reflectSchemaNames.simps)

lemma reflectMember_name: "reflectMember prefix inferredNameKey v = v"
  by (simp add: reflectMember_def inferredNameKey_def)

lemma reflect_parent_name:
  "inferredName (reflectSchemaNames (JObj kvs) pn n r) = Some parent \<Longrightarrow>
     ownName kvs pn n r = parent"
proof (cases "map_of kvs inferredNameKey")
  case None
  assume "inferredName (reflectSchemaNames (JObj kvs) pn n r) = Some parent"
  with None show ?thesis
    by (simp add: inferredName_def reflectSchemaNames_members map_of_mapped map_add_def
             del: reflectSchemaNames.simps)
next
  case (Some v)
  assume "inferredName (reflectSchemaNames (JObj kvs) pn n r) = Some parent"
  with Some have "v = JStr parent"
    by (simp add: inferredName_def reflectSchemaNames_members map_of_mapped reflectMember_name
             del: reflectSchemaNames.simps split: jsval.splits)
  with Some show ?thesis by (simp add: ownName_def)
qed


text \<open>
  The model of the reflector gives the schema of the \<^verbatim>\<open>reflectSchemaName()\<close> test the
  sixteen names the test expects.
\<close>

lemmas reflect_eval =
  reflectTestSchema_def stringSchema_def inferredName_def inferredNameKey_def ownName_def
  enumerate_eq_zip Let_def

lemma reflectSchemaNames_test:
  "nameAt (reflectSchemaNames reflectTestSchema None ''root'' True) [] = Some ''root''"
  "nameAt (reflectSchemaNames reflectTestSchema None ''root'' True) [Property ''prop''] = Some ''prop''"
  "nameAt (reflectSchemaNames reflectTestSchema None ''root'' True)
     [Property ''allOfCase'', AllOf 0] = Some ''allOfCase_allOf_0''"
  "nameAt (reflectSchemaNames reflectTestSchema None ''root'' True)
     [Property ''allOfCase'', AllOf 1] = Some ''allOfCase_allOf_1''"
  "nameAt (reflectSchemaNames reflectTestSchema None ''root'' True)
     [Property ''object''] = Some ''object''"
  "nameAt (reflectSchemaNames reflectTestSchema None ''root'' True)
     [Property ''object'', Property ''prop''] = Some ''object_prop''"
  "nameAt (reflectSchemaNames reflectTestSchema None ''root'' True)
     [Property ''propWithObject''] = Some ''propWithObject''"
  "nameAt (reflectSchemaNames reflectTestSchema None ''root'' True)
     [Property ''propWithObject'', Property ''propWithObject''] =
     Some ''propWithObject_propWithObject''"
  "nameAt (reflectSchemaNames reflectTestSchema None ''root'' True)
     [PatternProperty 0] = Some ''pattern_property_0''"
  "nameAt (reflectSchemaNames reflectTestSchema None ''root'' True)
     [Dependency ''dep''] = Some ''dep''"
  "nameAt (reflectSchemaNames reflectTestSchema None ''root'' True)
     [Definition ''def''] = Some ''def''"
  "nameAt (reflectSchemaNames reflectTestSchema None ''root'' True)
     [Definition ''oneOfCase'', OneOf 0] = Some ''oneOfCase_oneOf_0''"
  "nameAt (reflectSchemaNames reflectTestSchema None ''root'' True)
     [Definition ''oneOfCase'', OneOf 1] = Some ''oneOfCase_oneOf_1''"
  "nameAt (reflectSchemaNames reflectTestSchema None ''root'' True) [AnyOf 0] = Some ''anyOf_0''"
  "nameAt (reflectSchemaNames reflectTestSchema None ''root'' True) [AnyOf 1] = Some ''anyOf_1''"
  "nameAt (reflectSchemaNames reflectTestSchema None ''root'' True)
     [AnyOf 1, Property ''prop''] = Some ''anyOf_1_prop''"
  by (simp_all add: reflect_eval)


text \<open>
  C8, as stated, fails at the subschemas of the root: seeded at \<^verbatim>\<open>root\<close>, the root of
  the inferred-naming scenario is named \<^verbatim>\<open>root\<close>, and its subschema at
  \<^verbatim>\<open>properties[outer]\<close>, which has no inferred name of its own, is named \<^verbatim>\<open>outer\<close>:
  the position key alone, not \<^verbatim>\<open>root_outer\<close>.
\<close>

theorem reflectSchemaNames_root_child_counterexample:
  "nameAt (reflectSchemaNames outerInner None ''root'' True) [] = Some ''root''
   \<and> subschemaAt outerInner (Property ''outer'') = Some outerSchema
   \<and> inferredName outerSchema = None
   \<and> nameAt (reflectSchemaNames outerInner None ''root'' True) [Property ''outer''] =
       Some ''outer''"
  by (simp add: outerInner_def outerSchema_def inferredName_def inferredNameKey_def ownName_def
        Let_def)


text \<open>
  C8, amended: for every schema object that is reflected and every object subschema of it
  at a nameable position that lacks \<^verbatim>\<open>x-modelgen-inferred-name\<close>, the reflector sets
  the attribute to the parent's inferred name and the position key joined by \<^verbatim>\<open>_\<close>,
  except that the subschemas of the root and the schemas under \<^verbatim>\<open>definitions\<close> are
  named by their position key alone.
\<close>

theorem reflectSchemaNames_positions:
  assumes "subschemaAt (JObj kvs) pos = Some (JObj sub)"
    and "map_of sub inferredNameKey = None"
    and "inferredName (reflectSchemaNames (JObj kvs) parentName name isRoot) = Some parent"
  shows "\<exists>sub'. subschemaAt (reflectSchemaNames (JObj kvs) parentName name isRoot) pos = Some sub'
           \<and> inferredName sub' =
               Some (if isRoot \<or> isDefinition pos then positionKey pos
                     else parent @ ''_'' @ positionKey pos)"
proof -
  have own: "ownName kvs parentName name isRoot = parent"
    using assms(3) by (rule reflect_parent_name)
  have "subschemaAt (reflectSchemaNames (JObj kvs) parentName name isRoot) pos =
          Some (reflectSchemaNames (JObj sub)
                  (positionPrefix pos (if isRoot then None else Some parent))
                  (positionKey pos) False)"
    unfolding subschemaAt_reflect own assms(1) by simp
  moreover have "inferredName (reflectSchemaNames (JObj sub)
                  (positionPrefix pos (if isRoot then None else Some parent))
                  (positionKey pos) False) =
          Some (joinName (positionPrefix pos (if isRoot then None else Some parent))
                  (positionKey pos))"
    using assms(2) by (rule reflect_inferredName)
  moreover have "joinName (positionPrefix pos (if isRoot then None else Some parent))
                  (positionKey pos) =
          (if isRoot \<or> isDefinition pos then positionKey pos
           else parent @ ''_'' @ positionKey pos)"
    by (cases pos) simp_all
  ultimately show ?thesis by simp
qed

theorem reflectSchemaNames_positions_witness:
  "subschemaAt outerSchema (Property ''inner'') = Some (JObj [(''type'', JStr ''object'')])
   \<and> inferredName (reflectSchemaNames outerSchema None ''outer'' False) = Some ''outer''
   \<and> nameAt (reflectSchemaNames outerSchema None ''outer'' False) [Property ''inner''] =
       Some ''outer_inner''
   \<and> nameAt (reflectSchemaNames outerInner None ''root'' True)
        [Property ''outer'', Property ''inner''] = Some ''outer_inner''"
proof -
  have a: "subschemaAt (JObj [(''properties'', JObj [(''inner'', JObj [(''type'', JStr ''object'')])])])
             (Property ''inner'') = Some (JObj [(''type'', JStr ''object'')])"
    by simp
  have b: "map_of [(''type'', JStr ''object'')] inferredNameKey = None"
    by (simp add: inferredNameKey_def)
  have c: "inferredName (reflectSchemaNames
             (JObj [(''properties'', JObj [(''inner'', JObj [(''type'', JStr ''object'')])])])
             None ''outer'' False) = Some ''outer''"
    by (simp add: inferredName_def inferredNameKey_def ownName_def Let_def)
  have "nameAt (reflectSchemaNames outerSchema None ''outer'' False) [Property ''inner''] =
          Some ''outer_inner''"
    using reflectSchemaNames_positions [OF a b c] unfolding outerSchema_def
    by (auto simp del: reflectSchemaNames.simps)
  moreover have "nameAt (reflectSchemaNames outerInner None ''root'' True)
        [Property ''outer'', Property ''inner''] = Some ''outer_inner''"
    by (simp add: outerInner_def outerSchema_def inferredName_def inferredNameKey_def
          ownName_def Let_def)
  ultimately show ?thesis using a c by (simp add: outerSchema_def del: reflectSchemaNames.simps)
qed

end
